theory Spec2Isabelle
  imports Main "HOL-Library.Word"
begin

section \<open>The meta server of the storage cluster: \<^verbatim>\<open>src/meta/zp_meta_server.cc\<close>\<close>

text \<open>
  A shallow embedding of the member functions of \<^verbatim>\<open>ZPMetaServer\<close> that the specification
  makes claims about. The server object is a record of the members the functions read or
  write; the collaborators it only calls (InfoStore, MigrateRegister, UpdateThread,
  ConditionCron, the replicated log, the redirect client) are not part of the file: what
  they answer is a field of the environment, and every effectful call made on them is
  appended, in program order, to the member \<open>calls\<close> of the server record.
\<close>

subsection \<open>Status values (slash::Status)\<close>

datatype Code =
  kOk | kNotFound | kCorruption | kNotSupported | kInvalidArgument | kIOError
  | kEndFile | kIncomplete | kComplete | kTimeout | kAuthFailed | kBusy

datatype Status = Status (code: Code) (msg: string)

definition OK :: Status where
  "OK = Status kOk []"

definition InvalidArgument :: "string \<Rightarrow> Status" where
  "InvalidArgument m = Status kInvalidArgument m"

definition Incomplete :: "string \<Rightarrow> Status" where
  "Incomplete m = Status kIncomplete m"

definition Corruption :: "string \<Rightarrow> Status" where
  "Corruption m = Status kCorruption m"

definition ok :: "Status \<Rightarrow> bool" where
  "ok s = (code s = kOk)"

definition IsNotFound :: "Status \<Rightarrow> bool" where
  "IsNotFound s = (code s = kNotFound)"

definition IsIncomplete :: "Status \<Rightarrow> bool" where
  "IsIncomplete s = (code s = kIncomplete)"

subsection \<open>Messages and tasks\<close>

text \<open>
  Modelled from the spec: the protobuf messages of \<^verbatim>\<open>include/zp_meta.pb.h\<close>, which is not
  part of the sources. The fields are the ones the accessors of the file name
  (\<^verbatim>\<open>diff.right().ip()\<close>, \<^verbatim>\<open>po.filenum()\<close>, \<^verbatim>\<open>ms_info->add_info()\<close>, ...); \<open>partition\<close> and
  the second \<open>offset\<close> carry a suffix because the names are taken. A table and its
  partitions are as the data model of the spec describes them; a command and its
  response are a type and an opaque body.

  Ports and partition numbers are \<^verbatim>\<open>int\<close> in the source: the file adds and subtracts
  the port shifts and prints both with \<^verbatim>\<open>%u\<close>. They are 32-bit words here, so that
  \<open>+\<close> and \<open>-\<close> wrap around as the 32-bit arithmetic of the compiled code does and
  \<open>unat\<close> is the value \<^verbatim>\<open>%u\<close> prints. Epochs, file numbers and offsets are only copied
  and compared and the retry counter only counts down from its constant: they are
  \<open>int\<close>.
\<close>

type_synonym int32 = "32 word"

record Node =
  ip :: string
  port :: int32

record RelationCmdUnit =
  table :: string
  partition_d :: int32
  left :: Node
  right :: Node

text \<open>The operations of an update task that the file names.\<close>

datatype ZPMetaUpdateOP =
  kOpUpNode | kOpDownNode | kOpAddSlave | kOpRemoveSlave | kOpSetMaster | kOpSetStuck

text \<open>\<^verbatim>\<open>UpdateTask(op, ip_port, table, partition)\<close> and
  \<^verbatim>\<open>OffsetCondition(table, partition, left, right)\<close>, built positionally as in the source.
  The third argument of an OffsetCondition is the reference node, the fourth the
  candidate that has to catch up with it.\<close>

datatype UpdateTask = UpdateTask ZPMetaUpdateOP string string int32

datatype OffsetCondition = OffsetCondition string int32 Node Node

text \<open>The command types of \<^verbatim>\<open>InitClientCmdTable\<close>.\<close>

datatype Type =
  PING | PULL | INIT | SETMASTER | ADDSLAVE | REMOVESLAVE | LISTTABLE | LISTNODE
  | LISTMETA | METASTATUS | DROPTABLE | MIGRATE | CANCELMIGRATE

datatype PState = ACTIVE | STUCK | SLOWDOWN

record Partitions =
  id_p :: int32
  state :: PState
  master :: Node
  slaves :: "Node list"

record Table =
  name :: string
  partitions :: "Partitions list"

record MetaCmdResponse_Pull =
  version :: int
  info :: "Table list"

record MetaNodes =
  leader :: "Node option"
  followers :: "Node list"

record SyncOffset =
  table_name :: string
  partition_o :: int32
  filenum :: int
  offset_o :: int

record MetaCmd_Ping =
  node :: Node
  offset :: "SyncOffset list"

record MetaCmd =
  cmd_type :: Type
  cmd_body :: string

record MetaCmdResponse =
  rsp_type :: Type
  rsp_body :: string

subsection \<open>Calls on the collaborators\<close>

text \<open>
  One constructor for each effectful call the functions below make on a collaborator:
  \<^verbatim>\<open>update_thread_->PendingUpdate\<close>, \<^verbatim>\<open>condition_cron_->AddCronTask\<close>,
  \<^verbatim>\<open>migrate_register_->Init\<close> and \<^verbatim>\<open>GetN\<close>, \<^verbatim>\<open>info_store_->RestoreNodeAlive\<close>, and
  \<^verbatim>\<open>Connect\<close>, \<^verbatim>\<open>Send\<close> and \<^verbatim>\<open>Recv\<close> on the redirect client.
\<close>

datatype Call =
    Ev_PendingUpdate UpdateTask
  | Ev_AddCronTask OffsetCondition UpdateTask
  | Ev_Init "RelationCmdUnit list"
  | Ev_GetN nat
  | Ev_RestoreNodeAlive
  | Ev_Connect string int32
  | Ev_Send MetaCmd
  | Ev_Recv

subsection \<open>The server object\<close>

text \<open>\<^verbatim>\<open>pink::PinkCli\<close>: the address it was connected to and its two timeouts (ms).\<close>

record PinkCli =
  peer_ip :: string
  peer_port :: int32
  send_timeout :: int
  recv_timeout :: int

text \<open>\<^verbatim>\<open>LeaderJoint\<close> (\<^verbatim>\<open>leader_joint_.cli\<close>, \<^verbatim>\<open>.ip\<close>, \<^verbatim>\<open>.port\<close>): \<open>cli = None\<close> is the null
  handle. The mutex is left out: each function below runs as one step.\<close>

record LeaderJoint =
  cli :: "PinkCli option"
  lj_ip :: string
  lj_port :: int32

text \<open>\<^verbatim>\<open>NodeOffset(filenum, offset)\<close>.\<close>

datatype NodeOffset = NodeOffset int int

text \<open>
  The members the functions read or write: \<open>info_epoch\<close> is what
  \<^verbatim>\<open>info_store_->epoch()\<close> returns, \<open>leader_joint\<close> is \<^verbatim>\<open>leader_joint_\<close>, \<open>node_offsets\<close> is
  \<^verbatim>\<open>node_offsets_.offsets\<close> (a map from key strings), and \<open>calls\<close> is the sequence of
  calls made on the collaborators so far.
\<close>

record ZPMetaServer =
  info_epoch :: int
  leader_joint :: LeaderJoint
  node_offsets :: "string \<rightharpoonup> NodeOffset"
  calls :: "Call list"

text \<open>
  The environment: the configuration (\<^verbatim>\<open>g_zp_conf\<close>), the constants of
  \<^verbatim>\<open>include/zp_const.h\<close>, the library functions of slash, whether assertions are compiled
  out, and the answers of the collaborators. A function that fills an out-parameter
  answers with its status and the value of the parameter after the call; a set is given
  in the order its iteration has. An answer to an effectful call may depend on the calls
  made so far.
\<close>

record Env =
  local_ip :: string
  local_port :: int32
  kMetaPortShiftCmd :: int32
  kMetaPortShiftFY :: int32
  kMetaMigrateOnceCount :: nat
  kInitMigrateRetryNum :: int
  NDEBUG :: bool
  IpPortString :: "string \<Rightarrow> int32 \<Rightarrow> string"
  ParseIpPortString :: "string \<Rightarrow> (string \<times> int32) option"
  floyd_GetLeader :: "(string \<times> int32) option"
  floyd_GetAllNodes :: "string list"
  GetPartitionMaster :: "string \<Rightarrow> int32 \<Rightarrow> Status \<times> Node"
  GetTablesForNode :: "string \<Rightarrow> Status \<times> string list"
  GetTableMeta :: "string \<Rightarrow> Status \<times> Table"
  RestoreNodeAlive :: "Call list \<Rightarrow> Status"
  reg_Init :: "Call list \<Rightarrow> RelationCmdUnit list \<Rightarrow> Status"
  reg_GetN :: "Call list \<Rightarrow> nat \<Rightarrow> Status \<times> RelationCmdUnit list"
  cli_Connect :: "Call list \<Rightarrow> string \<Rightarrow> int32 \<Rightarrow> Status"
  cli_Send :: "Call list \<Rightarrow> MetaCmd \<Rightarrow> Status"
  cli_Recv :: "Call list \<Rightarrow> MetaCmdResponse \<Rightarrow> Status \<times> MetaCmdResponse"

text \<open>\<^verbatim>\<open>update_thread_->PendingUpdate(task)\<close> and
  \<^verbatim>\<open>condition_cron_->AddCronTask(condition, task)\<close>: the call is recorded.\<close>

definition PendingUpdate :: "UpdateTask \<Rightarrow> ZPMetaServer \<Rightarrow> ZPMetaServer" where
  "PendingUpdate task st = st\<lparr>calls := calls st @ [Ev_PendingUpdate task]\<rparr>"

definition AddCronTask :: "OffsetCondition \<Rightarrow> UpdateTask \<Rightarrow> ZPMetaServer \<Rightarrow> ZPMetaServer" where
  "AddCronTask cond task st = st\<lparr>calls := calls st @ [Ev_AddCronTask cond task]\<rparr>"

subsection \<open>Migrate and ProcessMigrate\<close>

text \<open>The body of the loop of ProcessMigrate, for one item.\<close>

definition ProcessMigrate_item :: "Env \<Rightarrow> RelationCmdUnit \<Rightarrow> ZPMetaServer \<Rightarrow> ZPMetaServer" where
  "ProcessMigrate_item env diff st =
     (let st1 = PendingUpdate
            (UpdateTask kOpAddSlave
               (IpPortString env (ip (right diff)) (port (right diff)))
               (table diff) (partition_d diff)) st;
          st2 = PendingUpdate
            (UpdateTask kOpSetStuck [] (table diff) (partition_d diff)) st1
      in AddCronTask
           (OffsetCondition (table diff) (partition_d diff) (left diff) (right diff))
           (UpdateTask kOpRemoveSlave
              (IpPortString env (ip (left diff)) (port (left diff)))
              (table diff) (partition_d diff)) st2)"

fun ProcessMigrate_loop ::
  "Env \<Rightarrow> RelationCmdUnit list \<Rightarrow> bool \<times> ZPMetaServer \<Rightarrow> bool \<times> ZPMetaServer" where
  "ProcessMigrate_loop env [] (has_process, st) = (has_process, st)"
| "ProcessMigrate_loop env (diff # diffs) (has_process, st) =
     ProcessMigrate_loop env diffs (True, ProcessMigrate_item env diff st)"

text \<open>A NotFound of \<^verbatim>\<open>GetN\<close> is only logged; any other failure is returned at once.\<close>

definition ProcessMigrate :: "Env \<Rightarrow> ZPMetaServer \<Rightarrow> Status \<times> ZPMetaServer" where
  "ProcessMigrate env st =
     (let (s, diffs) = reg_GetN env (calls st) (kMetaMigrateOnceCount env);
          st0 = st\<lparr>calls := calls st @ [Ev_GetN (kMetaMigrateOnceCount env)]\<rparr>
      in if \<not> IsNotFound s \<and> \<not> ok s then (s, st0)
         else
           (let (has_process, st1) = ProcessMigrate_loop env diffs (False, st0)
            in if \<not> has_process then (Incomplete ''no migrate item begin'', st1)
               else (OK, st1)))"

text \<open>\<^verbatim>\<open>do { s = ProcessMigrate(); } while (s.IsIncomplete() && retry-- > 0);\<close>\<close>

function Migrate_retry :: "Env \<Rightarrow> int \<Rightarrow> ZPMetaServer \<Rightarrow> Status \<times> ZPMetaServer" where
  "Migrate_retry env retry st =
     (let (s, st1) = ProcessMigrate env st
      in if IsIncomplete s \<and> retry > 0 then Migrate_retry env (retry - 1) st1
         else (s, st1))"
  by pat_completeness auto
termination
  by (relation "measure (\<lambda>(env, retry, st). nat retry)") auto

declare Migrate_retry.simps [simp del]

text \<open>A failed \<^verbatim>\<open>assert\<close> ends the process: the call does not return.\<close>

datatype Abort = AssertionFailed string

definition Migrate ::
  "Env \<Rightarrow> ZPMetaServer \<Rightarrow> int \<Rightarrow> RelationCmdUnit list \<Rightarrow> Abort + (Status \<times> ZPMetaServer)" where
  "Migrate env st a_epoch diffs =
     (if a_epoch \<noteq> info_epoch st then Inr (InvalidArgument ''Expired epoch'', st)
      else if \<not> NDEBUG env \<and> diffs = [] then Inl (AssertionFailed ''!diffs.empty()'')
      else
        (let s = reg_Init env (calls st) diffs;
             st1 = st\<lparr>calls := calls st @ [Ev_Init diffs]\<rparr>
         in if \<not> ok s then Inr (s, st1)
            else Inr (Migrate_retry env (kInitMigrateRetryNum env) st1)))"

subsection \<open>WaitSetMaster\<close>

definition WaitSetMaster ::
  "Env \<Rightarrow> ZPMetaServer \<Rightarrow> Node \<Rightarrow> string \<Rightarrow> int32 \<Rightarrow> Status \<times> ZPMetaServer" where
  "WaitSetMaster env st a_node a_table a_partition =
     (let (s, a_master) = GetPartitionMaster env a_table a_partition
      in if \<not> ok s then (s, st)
         else
           (let st1 = PendingUpdate (UpdateTask kOpSetStuck [] a_table a_partition) st;
                st2 = AddCronTask
                  (OffsetCondition a_table a_partition a_master a_node)
                  (UpdateTask kOpSetMaster
                     (IpPortString env (ip a_node) (port a_node)) a_table a_partition) st1
            in (OK, st2)))"

subsection \<open>GetMetaInfoByNode\<close>

text \<open>The loop over \<^verbatim>\<open>std::set<std::string> tables\<close>, in the order of the set.\<close>

fun GetMetaInfoByNode_loop ::
  "Env \<Rightarrow> string list \<Rightarrow> MetaCmdResponse_Pull \<Rightarrow> Status \<times> MetaCmdResponse_Pull" where
  "GetMetaInfoByNode_loop env [] ms_info = (OK, ms_info)"
| "GetMetaInfoByNode_loop env (t # ts) ms_info =
     (let (s, table_info) = GetTableMeta env t;
          ms1 = ms_info\<lparr>info := info ms_info @ [table_info]\<rparr>
      in if \<not> ok s then (s, ms1) else GetMetaInfoByNode_loop env ts ms1)"

definition GetMetaInfoByNode ::
  "Env \<Rightarrow> ZPMetaServer \<Rightarrow> string \<Rightarrow> MetaCmdResponse_Pull \<Rightarrow> Status \<times> MetaCmdResponse_Pull" where
  "GetMetaInfoByNode env st ip_port ms_info =
     (let ms1 = ms_info\<lparr>version := info_epoch st\<rparr>;
          (s, tables) = GetTablesForNode env ip_port
      in if \<not> ok s \<and> \<not> IsNotFound s then (s, ms1)
         else GetMetaInfoByNode_loop env tables ms1)"

subsection \<open>GetLeader and GetAllMetaNodes\<close>

text \<open>\<^verbatim>\<open>*port = fy_port - kMetaPortShiftFY\<close>, on 32 bits.\<close>

definition GetLeader :: "Env \<Rightarrow> (string \<times> int32) option" where
  "GetLeader env =
     (case floyd_GetLeader env of
        None \<Rightarrow> None
      | Some (l_ip, fy_port) \<Rightarrow> Some (l_ip, fy_port - kMetaPortShiftFY env))"

fun GetAllMetaNodes_loop ::
  "Env \<Rightarrow> (string \<times> int32) option \<Rightarrow> string list \<Rightarrow> MetaNodes \<Rightarrow> Status \<times> MetaNodes" where
  "GetAllMetaNodes_loop env ret [] p = (OK, p)"
| "GetAllMetaNodes_loop env ret (iter # rest) p =
     (case ParseIpPortString env iter of
        None \<Rightarrow> (Corruption ''parse ip port error'', p)
      | Some (p_ip, p_port) \<Rightarrow>
          if (case ret of
                None \<Rightarrow> False
              | Some (leader_ip, leader_port) \<Rightarrow>
                  p_ip = leader_ip \<and> p_port - kMetaPortShiftFY env = leader_port)
          then GetAllMetaNodes_loop env ret rest p
          else GetAllMetaNodes_loop env ret rest
                 (p\<lparr>followers := followers p
                       @ [\<lparr>ip = p_ip, port = p_port - kMetaPortShiftFY env\<rparr>]\<rparr>))"

definition GetAllMetaNodes :: "Env \<Rightarrow> MetaNodes \<Rightarrow> Status \<times> MetaNodes" where
  "GetAllMetaNodes env nodes =
     (let meta_nodes = floyd_GetAllNodes env;
          ret = GetLeader env;
          p = (case ret of
                 None \<Rightarrow> nodes
               | Some (leader_ip, leader_port) \<Rightarrow>
                   nodes\<lparr>leader := Some \<lparr>ip = leader_ip, port = leader_port\<rparr>\<rparr>)
      in GetAllMetaNodes_loop env ret meta_nodes p)"

subsection \<open>The leader joint: IsLeader, RedirectToLeader, RefreshLeader\<close>

definition IsLeader :: "Env \<Rightarrow> ZPMetaServer \<Rightarrow> bool" where
  "IsLeader env st =
     (if lj_ip (leader_joint st) = local_ip env
         \<and> lj_port (leader_joint st) = local_port env + kMetaPortShiftCmd env
      then True else False)"

definition RedirectToLeader ::
  "Env \<Rightarrow> ZPMetaServer \<Rightarrow> MetaCmd \<Rightarrow> MetaCmdResponse
     \<Rightarrow> Status \<times> MetaCmdResponse \<times> ZPMetaServer" where
  "RedirectToLeader env st request response =
     (case cli (leader_joint st) of
        None \<Rightarrow> (Corruption ''no leader connection'', response, st)
      | Some c \<Rightarrow>
          (let s = cli_Send env (calls st) request;
               st1 = st\<lparr>calls := calls st @ [Ev_Send request]\<rparr>
           in if \<not> ok s then (s, response, st1)
              else
                (let (s2, response2) = cli_Recv env (calls st1) response;
                     st2 = st1\<lparr>calls := calls st1 @ [Ev_Recv]\<rparr>
                 in (s2, response2, st2))))"

text \<open>
  Modelled from the spec: \<^verbatim>\<open>LeaderJoint::CleanLeader\<close> is declared in
  \<^verbatim>\<open>src/meta/zp_meta_server.h\<close>, which is not part of the sources. It drops the redirect
  connection and forgets the leader's address, which puts the joint back to what its
  constructor leaves.
\<close>

definition CleanLeader :: "LeaderJoint \<Rightarrow> LeaderJoint" where
  "CleanLeader lj = lj\<lparr>cli := None, lj_ip := [], lj_port := 0\<rparr>"

definition NewPbCli :: PinkCli where
  "NewPbCli = \<lparr>peer_ip = [], peer_port = 0, send_timeout = 0, recv_timeout = 0\<rparr>"

definition RefreshLeader :: "Env \<Rightarrow> ZPMetaServer \<Rightarrow> Status \<times> ZPMetaServer" where
  "RefreshLeader env st =
     (case GetLeader env of
        None \<Rightarrow> (Incomplete ''No leader yet'', st)
      | Some (leader_ip, leader_port) \<Rightarrow>
          (let leader_cmd_port = leader_port + kMetaPortShiftCmd env
           in if leader_ip = lj_ip (leader_joint st)
                 \<and> leader_cmd_port = lj_port (leader_joint st)
              then (OK, st)
              else
                (let st1 = st\<lparr>leader_joint := CleanLeader (leader_joint st)\<rparr>
                 in if leader_ip = local_ip env \<and> leader_port = local_port env
                    then
                      (let s = RestoreNodeAlive env (calls st1);
                           st2 = st1\<lparr>calls := calls st1 @ [Ev_RestoreNodeAlive]\<rparr>
                       in if \<not> ok s then (s, st2) else (OK, st2))
                    else
                      (let c = NewPbCli\<lparr>peer_ip := leader_ip, peer_port := leader_cmd_port\<rparr>;
                           st2 = st1\<lparr>leader_joint :=
                                   \<lparr>cli = Some c, lj_ip = leader_ip, lj_port = leader_cmd_port\<rparr>\<rparr>;
                           s = cli_Connect env (calls st2) leader_ip leader_cmd_port;
                           st3 = st2\<lparr>calls := calls st2 @ [Ev_Connect leader_ip leader_cmd_port]\<rparr>
                       in if \<not> ok s
                          then (s, st3\<lparr>leader_joint := CleanLeader (leader_joint st3)\<rparr>)
                          else (s, st3\<lparr>leader_joint := (leader_joint st3)
                                  \<lparr>cli := Some (c\<lparr>send_timeout := 1000, recv_timeout := 1000\<rparr>)\<rparr>\<rparr>)))))"

subsection \<open>NodeOffsetKey and UpdateNodeOffset\<close>


fun decimal :: "nat \<Rightarrow> string" where
  "decimal n =
     (if n < 10 then [''0123456789'' ! n]
      else decimal (n div 10) @ [''0123456789'' ! (n mod 10)])"

declare decimal.simps [simp del]







subsection \<open>A concrete cluster\<close>

text \<open>
  Three meta peers on base port 9221 whose replicated log listens on 9321, this node
  being \<open>10.0.0.1\<close>; storage nodes A, B and C; one table \<open>T\<close> whose partition 0 has
  master A and slave B; a register that holds three pending migration items.
\<close>

definition node_A :: Node where
  "node_A = \<lparr>ip = ''10.0.0.5'', port = 8001\<rparr>"

definition node_B :: Node where
  "node_B = \<lparr>ip = ''10.0.0.6'', port = 8001\<rparr>"

definition node_C :: Node where
  "node_C = \<lparr>ip = ''10.0.0.7'', port = 8001\<rparr>"

definition diff_AC :: RelationCmdUnit where
  "diff_AC = \<lparr>table = ''T'', partition_d = 0, left = node_A, right = node_C\<rparr>"

definition diff_BC :: RelationCmdUnit where
  "diff_BC = \<lparr>table = ''T'', partition_d = 1, left = node_B, right = node_C\<rparr>"

definition diff_AB :: RelationCmdUnit where
  "diff_AB = \<lparr>table = ''T'', partition_d = 2, left = node_A, right = node_B\<rparr>"

definition table_T :: Table where
  "table_T = \<lparr>name = ''T'',
     partitions = [\<lparr>id_p = 0, state = ACTIVE, master = node_A, slaves = [node_B]\<rparr>]\<rparr>"

definition server0 :: ZPMetaServer where
  "server0 = \<lparr>info_epoch = 7,
     leader_joint = \<lparr>cli = None, lj_ip = [], lj_port = 0\<rparr>,
     node_offsets = Map.empty,
     calls = []\<rparr>"

definition env0 :: Env where
  "env0 = \<lparr>local_ip = ''10.0.0.1'', local_port = 9221,
     kMetaPortShiftCmd = 0, kMetaPortShiftFY = 100,
     kMetaMigrateOnceCount = 2, kInitMigrateRetryNum = 3,
     NDEBUG = False,
     IpPortString = (\<lambda>i p. if i = [] then [] else i @ '':'' @ decimal (unat p)),
     ParseIpPortString = map_of
       [(''10.0.0.1:9321'', (''10.0.0.1'', 9321)),
        (''10.0.0.2:9321'', (''10.0.0.2'', 9321)),
        (''10.0.0.3:9321'', (''10.0.0.3'', 9321))],
     floyd_GetLeader = Some (''10.0.0.2'', 9321),
     floyd_GetAllNodes = [''10.0.0.1:9321'', ''10.0.0.2:9321'', ''10.0.0.3:9321''],
     GetPartitionMaster = (\<lambda>t p.
       if t = ''T'' \<and> p = 0 then (OK, node_A)
       else (Status kNotFound ''partition not exist'', \<lparr>ip = [], port = 0\<rparr>)),
     GetTablesForNode = (\<lambda>n.
       if n = ''10.0.0.5:8001'' \<or> n = ''10.0.0.6:8001'' then (OK, [''T''])
       else (Status kNotFound ''node not exist'', [])),
     GetTableMeta = (\<lambda>t.
       if t = ''T'' then (OK, table_T)
       else (Status kNotFound ''table not exist'', \<lparr>name = [], partitions = []\<rparr>)),
     RestoreNodeAlive = (\<lambda>h. OK),
     reg_Init = (\<lambda>h ds. OK),
     reg_GetN = (\<lambda>h k. (OK, take k [diff_AC, diff_BC, diff_AB])),
     cli_Connect = (\<lambda>h i p. OK),
     cli_Send = (\<lambda>h m. OK),
     cli_Recv = (\<lambda>h r. (OK, r))\<rparr>"

text \<open>The same cluster when the read of the register fails in the replicated log.\<close>

definition env_GetN_IOError :: Env where
  "env_GetN_IOError = env0\<lparr>reg_GetN := (\<lambda>h k. (Status kIOError ''floyd read failed'', []))\<rparr>"

text \<open>The same cluster built with assertions compiled out, the register answering as
  the spec describes it for an empty list: Init stores it, GetN finds no item.\<close>

definition env_release :: Env where
  "env_release = env0\<lparr>NDEBUG := True,
     reg_GetN := (\<lambda>h k. (Status kNotFound ''no migrate'', []))\<rparr>"

text \<open>The replicated log has no leader; the log reports this node as leader.\<close>

definition env_no_leader :: Env where
  "env_no_leader = env0\<lparr>floyd_GetLeader := None\<rparr>"

definition env_self_leader :: Env where
  "env_self_leader = env0\<lparr>floyd_GetLeader := Some (''10.0.0.1'', 9321)\<rparr>"

text \<open>A follower that holds a redirect connection to the leader \<open>10.0.0.2\<close>.\<close>

definition server_follower :: ZPMetaServer where
  "server_follower = server0\<lparr>leader_joint :=
     \<lparr>cli = Some \<lparr>peer_ip = ''10.0.0.2'', peer_port = 9221,
                    send_timeout = 1000, recv_timeout = 1000\<rparr>,
      lj_ip = ''10.0.0.2'', lj_port = 9221\<rparr>\<rparr>"





section \<open>Migration\<close>

subsection \<open>Migrate with a stale epoch\<close>

text \<open>
  C1. A call \<open>Migrate(epoch, diffs)\<close> whose epoch differs from the current epoch of the
  InfoStore returns InvalidArgument and has no side effect: the server object is the one
  it was before the call, and no call was made on the MigrateRegister, the UpdateThread or
  the ConditionCron.
\<close>

theorem Migrate_stale_epoch:
  assumes "a_epoch \<noteq> info_epoch st"
  shows "Migrate env st a_epoch diffs = Inr (InvalidArgument ''Expired epoch'', st)"
  using assms by (simp add: Migrate_def)

text \<open>The plan was made at epoch 6, the store is at epoch 7.\<close>

theorem Migrate_stale_epoch_witness:
  "(6::int) \<noteq> info_epoch server0
   \<and> Migrate env0 server0 6 [diff_AC] = Inr (InvalidArgument ''Expired epoch'', server0)
   \<and> code (InvalidArgument ''Expired epoch'') = kInvalidArgument
   \<and> calls server0 = []"
proof -
  have stale: "(6::int) \<noteq> info_epoch server0"
    by (simp add: server0_def)
  from Migrate_stale_epoch [OF stale, of env0 "[diff_AC]"] stale show ?thesis
    by (simp add: InvalidArgument_def server0_def)
qed

subsection \<open>ProcessMigrate\<close>

text \<open>The loop appends three calls per item, in the order of the items, and sets the
  flag as soon as there is one item.\<close>

lemma ProcessMigrate_loop_calls:
  "ProcessMigrate_loop env diffs (b, st) =
     (b \<or> diffs \<noteq> [],
      st\<lparr>calls := calls st @ concat (map (\<lambda>d.
         [Ev_PendingUpdate (UpdateTask kOpAddSlave
            (IpPortString env (ip (right d)) (port (right d))) (table d) (partition_d d)),
          Ev_PendingUpdate (UpdateTask kOpSetStuck [] (table d) (partition_d d)),
          Ev_AddCronTask (OffsetCondition (table d) (partition_d d) (left d) (right d))
            (UpdateTask kOpRemoveSlave
               (IpPortString env (ip (left d)) (port (left d))) (table d) (partition_d d))]) diffs)\<rparr>)"
  by (induction diffs arbitrary: b st)
     (simp_all add: ProcessMigrate_item_def PendingUpdate_def AddCronTask_def)

text \<open>
  C2, amended. ProcessMigrate asks the MigrateRegister for \<open>kMetaMigrateOnceCount\<close>
  items. If the register answers with an error other than NotFound, that error is
  returned and nothing is staged. Otherwise, for each item obtained, in order, it
  enqueues AddSlave(right), then SetStuck, then registers the ConditionCron entry with
  reference left and candidate right whose task is RemoveSlave(left); it returns
  Incomplete if no item was staged and OK otherwise.
\<close>

theorem ProcessMigrate_stages:
  assumes "reg_GetN env (calls st) (kMetaMigrateOnceCount env) = (s, diffs)"
  shows "ProcessMigrate env st =
     (if \<not> IsNotFound s \<and> \<not> ok s
      then (s, st\<lparr>calls := calls st @ [Ev_GetN (kMetaMigrateOnceCount env)]\<rparr>)
      else (if diffs = [] then Incomplete ''no migrate item begin'' else OK,
            st\<lparr>calls := calls st @ [Ev_GetN (kMetaMigrateOnceCount env)]
              @ concat (map (\<lambda>d.
                 [Ev_PendingUpdate (UpdateTask kOpAddSlave
                    (IpPortString env (ip (right d)) (port (right d)))
                    (table d) (partition_d d)),
                  Ev_PendingUpdate (UpdateTask kOpSetStuck [] (table d) (partition_d d)),
                  Ev_AddCronTask
                    (OffsetCondition (table d) (partition_d d) (left d) (right d))
                    (UpdateTask kOpRemoveSlave
                       (IpPortString env (ip (left d)) (port (left d)))
                       (table d) (partition_d d))]) diffs)\<rparr>))"
  using assms
  by (cases "IsNotFound s"; cases "ok s")
     (simp_all add: ProcessMigrate_def ProcessMigrate_loop_calls Let_def)

text \<open>The register holds three items and the batch size is two: two items are staged.\<close>

theorem ProcessMigrate_stages_witness:
  "reg_GetN env0 (calls server0) (kMetaMigrateOnceCount env0) = (OK, [diff_AC, diff_BC])
   \<and> ProcessMigrate env0 server0 =
       (OK, server0\<lparr>calls :=
          [Ev_GetN 2,
           Ev_PendingUpdate (UpdateTask kOpAddSlave ''10.0.0.7:8001'' ''T'' 0),
           Ev_PendingUpdate (UpdateTask kOpSetStuck [] ''T'' 0),
           Ev_AddCronTask (OffsetCondition ''T'' 0 node_A node_C)
             (UpdateTask kOpRemoveSlave ''10.0.0.5:8001'' ''T'' 0),
           Ev_PendingUpdate (UpdateTask kOpAddSlave ''10.0.0.7:8001'' ''T'' 1),
           Ev_PendingUpdate (UpdateTask kOpSetStuck [] ''T'' 1),
           Ev_AddCronTask (OffsetCondition ''T'' 1 node_B node_C)
             (UpdateTask kOpRemoveSlave ''10.0.0.6:8001'' ''T'' 1)]\<rparr>)"
proof -
  have answer: "reg_GetN env0 (calls server0) (kMetaMigrateOnceCount env0)
                  = (OK, [diff_AC, diff_BC])"
    by (simp add: env0_def)
  have ports: "decimal 8001 = ''8001''"
    by (simp add: decimal.simps)
  from ProcessMigrate_stages [OF answer] answer ports show ?thesis
    by (simp add: env0_def server0_def OK_def ok_def IsNotFound_def
                  diff_AC_def diff_BC_def node_A_def node_B_def node_C_def)
qed

text \<open>
  C2 as stated fails: when the read of the register fails with an IOError, no item is
  staged, and the call returns the IOError, not Incomplete.
\<close>

theorem ProcessMigrate_GetN_error_counterexample:
  "calls (snd (ProcessMigrate env_GetN_IOError server0)) = [Ev_GetN 2]
   \<and> fst (ProcessMigrate env_GetN_IOError server0) = Status kIOError ''floyd read failed''
   \<and> \<not> IsIncomplete (fst (ProcessMigrate env_GetN_IOError server0))"
  by (simp add: ProcessMigrate_def env_GetN_IOError_def env0_def server0_def
                IsNotFound_def ok_def IsIncomplete_def)

subsection \<open>Migrate with an empty list\<close>

text \<open>Where the status of a ProcessMigrate, and of the retry loop, comes from: it is OK,
  the Incomplete of ProcessMigrate, or what GetN answered.\<close>

lemma ProcessMigrate_status:
  "fst (ProcessMigrate env st) = OK
   \<or> fst (ProcessMigrate env st) = Incomplete ''no migrate item begin''
   \<or> fst (ProcessMigrate env st) = fst (reg_GetN env (calls st) (kMetaMigrateOnceCount env))"
  by (cases "reg_GetN env (calls st) (kMetaMigrateOnceCount env)")
     (simp add: ProcessMigrate_def Let_def split: prod.splits)

lemma Migrate_retry_status:
  "fst (Migrate_retry env retry st) = OK
   \<or> fst (Migrate_retry env retry st) = Incomplete ''no migrate item begin''
   \<or> (\<exists>h. fst (Migrate_retry env retry st) = fst (reg_GetN env h (kMetaMigrateOnceCount env)))"
proof (induction env retry st rule: Migrate_retry.induct)
  case (1 env retry st)
  obtain s st1 where pm: "ProcessMigrate env st = (s, st1)"
    by (cases "ProcessMigrate env st")
  show ?case
  proof (cases "IsIncomplete s \<and> retry > 0")
    case True
    with pm have "Migrate_retry env retry st = Migrate_retry env (retry - 1) st1"
      by (subst Migrate_retry.simps) simp
    with "1.IH" [OF pm [symmetric] refl] True show ?thesis by simp
  next
    case False
    with pm have "Migrate_retry env retry st = (s, st1)"
      by (subst Migrate_retry.simps) auto
    with ProcessMigrate_status [of env st] pm show ?thesis by auto
  qed
qed

text \<open>The first call of a ProcessMigrate, and of the retry loop, is GetN.\<close>

lemma ProcessMigrate_first_call:
  "\<exists>rest. calls (snd (ProcessMigrate env st))
             = calls st @ Ev_GetN (kMetaMigrateOnceCount env) # rest"
  by (cases "reg_GetN env (calls st) (kMetaMigrateOnceCount env)")
     (simp add: ProcessMigrate_def ProcessMigrate_loop_calls Let_def)

lemma Migrate_retry_first_call:
  "\<exists>rest. calls (snd (Migrate_retry env retry st))
             = calls st @ Ev_GetN (kMetaMigrateOnceCount env) # rest"
proof (induction env retry st rule: Migrate_retry.induct)
  case (1 env retry st)
  obtain s st1 where pm: "ProcessMigrate env st = (s, st1)"
    by (cases "ProcessMigrate env st")
  from ProcessMigrate_first_call [of env st] pm
  obtain r1 where c1: "calls st1 = calls st @ Ev_GetN (kMetaMigrateOnceCount env) # r1"
    by auto
  show ?case
  proof (cases "IsIncomplete s \<and> retry > 0")
    case True
    with pm have eq: "Migrate_retry env retry st = Migrate_retry env (retry - 1) st1"
      by (subst Migrate_retry.simps) simp
    from "1.IH" [OF pm [symmetric] refl] True
    obtain r2 where "calls (snd (Migrate_retry env (retry - 1) st1))
                       = calls st1 @ Ev_GetN (kMetaMigrateOnceCount env) # r2"
      by auto
    with eq c1 show ?thesis by simp
  next
    case False
    with pm have "Migrate_retry env retry st = (s, st1)"
      by (subst Migrate_retry.simps) auto
    with c1 show ?thesis by simp
  qed
qed

text \<open>
  C4, amended. For a call \<open>Migrate(epoch, diffs)\<close> with diffs empty and epoch equal to the
  current epoch, Migrate has no InvalidArgument of its own. With assertions compiled in,
  the call stops at \<^verbatim>\<open>assert(!diffs.empty())\<close> and returns nothing. With assertions
  compiled out, the empty list is passed to \<open>MigrateRegister.Init\<close>: if Init fails, its
  status is returned and nothing else is called; otherwise the call returns what the
  retry loop of ProcessMigrate returns, which starts with a GetN on the register and
  whose status is OK, the Incomplete of ProcessMigrate, or one that GetN answered.
\<close>

theorem Migrate_empty_diffs:
  assumes "a_epoch = info_epoch st"
  shows "Migrate env st a_epoch [] =
           (if \<not> NDEBUG env then Inl (AssertionFailed ''!diffs.empty()'')
            else if \<not> ok (reg_Init env (calls st) [])
            then Inr (reg_Init env (calls st) [], st\<lparr>calls := calls st @ [Ev_Init []]\<rparr>)
            else Inr (Migrate_retry env (kInitMigrateRetryNum env)
                        (st\<lparr>calls := calls st @ [Ev_Init []]\<rparr>)))
       \<and> (fst (Migrate_retry env (kInitMigrateRetryNum env)
                  (st\<lparr>calls := calls st @ [Ev_Init []]\<rparr>)) = OK
          \<or> fst (Migrate_retry env (kInitMigrateRetryNum env)
                  (st\<lparr>calls := calls st @ [Ev_Init []]\<rparr>)) = Incomplete ''no migrate item begin''
          \<or> (\<exists>h. fst (Migrate_retry env (kInitMigrateRetryNum env)
                         (st\<lparr>calls := calls st @ [Ev_Init []]\<rparr>))
                    = fst (reg_GetN env h (kMetaMigrateOnceCount env))))
       \<and> (\<exists>rest. calls (snd (Migrate_retry env (kInitMigrateRetryNum env)
                                (st\<lparr>calls := calls st @ [Ev_Init []]\<rparr>)))
                    = calls st @ [Ev_Init [], Ev_GetN (kMetaMigrateOnceCount env)] @ rest)"
proof (intro conjI)
  from assms show "Migrate env st a_epoch [] =
           (if \<not> NDEBUG env then Inl (AssertionFailed ''!diffs.empty()'')
            else if \<not> ok (reg_Init env (calls st) [])
            then Inr (reg_Init env (calls st) [], st\<lparr>calls := calls st @ [Ev_Init []]\<rparr>)
            else Inr (Migrate_retry env (kInitMigrateRetryNum env)
                        (st\<lparr>calls := calls st @ [Ev_Init []]\<rparr>)))"
    by (simp add: Migrate_def)
next
  show "fst (Migrate_retry env (kInitMigrateRetryNum env)
                  (st\<lparr>calls := calls st @ [Ev_Init []]\<rparr>)) = OK
          \<or> fst (Migrate_retry env (kInitMigrateRetryNum env)
                  (st\<lparr>calls := calls st @ [Ev_Init []]\<rparr>)) = Incomplete ''no migrate item begin''
          \<or> (\<exists>h. fst (Migrate_retry env (kInitMigrateRetryNum env)
                         (st\<lparr>calls := calls st @ [Ev_Init []]\<rparr>))
                    = fst (reg_GetN env h (kMetaMigrateOnceCount env)))"
    by (rule Migrate_retry_status)
next
  from Migrate_retry_first_call
         [of env "kInitMigrateRetryNum env" "st\<lparr>calls := calls st @ [Ev_Init []]\<rparr>"]
  show "\<exists>rest. calls (snd (Migrate_retry env (kInitMigrateRetryNum env)
                                (st\<lparr>calls := calls st @ [Ev_Init []]\<rparr>)))
                    = calls st @ [Ev_Init [], Ev_GetN (kMetaMigrateOnceCount env)] @ rest"
    by simp
qed

text \<open>Both builds, at the current epoch 7.\<close>

theorem Migrate_empty_diffs_witness:
  "(7::int) = info_epoch server0
   \<and> Migrate env0 server0 7 [] = Inl (AssertionFailed ''!diffs.empty()'')
   \<and> Migrate env_release server0 7 [] =
       Inr (Migrate_retry env_release 3 (server0\<lparr>calls := [Ev_Init []]\<rparr>))"
proof -
  have now: "(7::int) = info_epoch server0"
    by (simp add: server0_def)
  have debug: "\<not> NDEBUG env0"
    by (simp add: env0_def)
  have release: "NDEBUG env_release" "kInitMigrateRetryNum env_release = 3"
    "ok (reg_Init env_release (calls server0) [])"
    by (simp_all add: env_release_def env0_def ok_def OK_def)
  have srv: "server0\<lparr>calls := calls server0 @ [Ev_Init []]\<rparr> = server0\<lparr>calls := [Ev_Init []]\<rparr>"
    by (simp add: server0_def)
  have a: "Migrate env0 server0 7 [] = Inl (AssertionFailed ''!diffs.empty()'')"
    using Migrate_empty_diffs [OF now, of env0, THEN conjunct1] debug by simp
  have b: "Migrate env_release server0 7 [] =
             Inr (Migrate_retry env_release 3 (server0\<lparr>calls := [Ev_Init []]\<rparr>))"
    using Migrate_empty_diffs [OF now, of env_release, THEN conjunct1] release
    by (simp add: srv)
  from now a b show ?thesis by (intro conjI)
qed

text \<open>
  C4 as stated fails. With assertions compiled in the call does not return at all; with
  assertions compiled out and a register that stores the empty list, ProcessMigrate
  finds no item four times (one call and \<open>kInitMigrateRetryNum = 3\<close> retries) and the
  call returns Incomplete.
\<close>

theorem Migrate_empty_diffs_counterexample:
  "Migrate env0 server0 (info_epoch server0) [] = Inl (AssertionFailed ''!diffs.empty()'')
   \<and> Migrate env_release server0 (info_epoch server0) [] =
       Inr (Incomplete ''no migrate item begin'',
            server0\<lparr>calls := [Ev_Init [], Ev_GetN 2, Ev_GetN 2, Ev_GetN 2, Ev_GetN 2]\<rparr>)
   \<and> code (Incomplete ''no migrate item begin'') \<noteq> kInvalidArgument"
proof -
  have a: "Migrate env0 server0 (info_epoch server0) []
             = Inl (AssertionFailed ''!diffs.empty()'')"
    by (simp add: Migrate_def env0_def)
  have pm: "\<And>cs. ProcessMigrate env_release (server0\<lparr>calls := cs\<rparr>) =
              (Incomplete ''no migrate item begin'', server0\<lparr>calls := cs @ [Ev_GetN 2]\<rparr>)"
    by (simp add: ProcessMigrate_def env_release_def env0_def IsNotFound_def ok_def)
  have inc: "IsIncomplete (Incomplete ''no migrate item begin'')"
    by (simp add: IsIncomplete_def Incomplete_def)
  have r0: "\<And>cs. Migrate_retry env_release 0 (server0\<lparr>calls := cs\<rparr>) =
              (Incomplete ''no migrate item begin'', server0\<lparr>calls := cs @ [Ev_GetN 2]\<rparr>)"
    by (subst Migrate_retry.simps) (simp add: pm)
  have step: "\<And>n cs. 0 < n \<Longrightarrow> Migrate_retry env_release n (server0\<lparr>calls := cs\<rparr>) =
              Migrate_retry env_release (n - 1) (server0\<lparr>calls := cs @ [Ev_GetN 2]\<rparr>)"
    by (subst Migrate_retry.simps) (simp add: pm inc)
  have r3: "Migrate_retry env_release 3 (server0\<lparr>calls := [Ev_Init []]\<rparr>) =
              (Incomplete ''no migrate item begin'',
               server0\<lparr>calls := [Ev_Init [], Ev_GetN 2, Ev_GetN 2, Ev_GetN 2, Ev_GetN 2]\<rparr>)"
    by (simp add: step r0)
  have srv: "server0\<lparr>calls := calls server0 @ [Ev_Init []]\<rparr> = server0\<lparr>calls := [Ev_Init []]\<rparr>"
    by (simp add: server0_def)
  have b: "Migrate env_release server0 (info_epoch server0) [] =
       Inr (Incomplete ''no migrate item begin'',
            server0\<lparr>calls := [Ev_Init [], Ev_GetN 2, Ev_GetN 2, Ev_GetN 2, Ev_GetN 2]\<rparr>)"
  proof -
    have cfg: "NDEBUG env_release" "kInitMigrateRetryNum env_release = 3"
      "ok (reg_Init env_release (calls server0) [])"
      by (simp_all add: env_release_def env0_def ok_def OK_def)
    then show ?thesis
      by (simp add: Migrate_def srv r3)
  qed
  from a b show ?thesis by (simp add: Incomplete_def)
qed

section \<open>WaitSetMaster\<close>

text \<open>
  C3. \<open>WaitSetMaster(node, table, partition)\<close>: if the lookup of the partition's master
  fails, the failure of the lookup is returned and nothing is enqueued. Otherwise the call
  first enqueues SetStuck for (table, partition) to the UpdateThread, then registers the
  ConditionCron entry with the current master as reference and \<open>node\<close> as candidate whose
  deferred task is SetMaster(node, table, partition), and returns OK.
\<close>

theorem WaitSetMaster_gated:
  assumes "GetPartitionMaster env a_table a_partition = (s, a_master)"
  shows "WaitSetMaster env st a_node a_table a_partition =
     (if \<not> ok s then (s, st)
      else (OK, st\<lparr>calls := calls st @
              [Ev_PendingUpdate (UpdateTask kOpSetStuck [] a_table a_partition),
               Ev_AddCronTask
                 (OffsetCondition a_table a_partition a_master a_node)
                 (UpdateTask kOpSetMaster
                    (IpPortString env (ip a_node) (port a_node))
                    a_table a_partition)]\<rparr>))"
  using assms
  by (simp add: WaitSetMaster_def PendingUpdate_def AddCronTask_def)

text \<open>Partition 0 of \<open>T\<close> has master A; partition 5 does not exist and the lookup answers
  NotFound.\<close>

theorem WaitSetMaster_gated_witness:
  "GetPartitionMaster env0 ''T'' 0 = (OK, node_A)
   \<and> WaitSetMaster env0 server0 node_B ''T'' 0 =
       (OK, server0\<lparr>calls :=
          [Ev_PendingUpdate (UpdateTask kOpSetStuck [] ''T'' 0),
           Ev_AddCronTask (OffsetCondition ''T'' 0 node_A node_B)
             (UpdateTask kOpSetMaster ''10.0.0.6:8001'' ''T'' 0)]\<rparr>)
   \<and> GetPartitionMaster env0 ''T'' 5
       = (Status kNotFound ''partition not exist'', \<lparr>ip = [], port = 0\<rparr>)
   \<and> WaitSetMaster env0 server0 node_B ''T'' 5
       = (Status kNotFound ''partition not exist'', server0)"
proof -
  have found: "GetPartitionMaster env0 ''T'' 0 = (OK, node_A)"
    by (simp add: env0_def)
  have absent: "GetPartitionMaster env0 ''T'' 5
      = (Status kNotFound ''partition not exist'', \<lparr>ip = [], port = 0\<rparr>)"
    by (simp add: env0_def)
  have ports: "decimal 8001 = ''8001''"
    by (simp add: decimal.simps)
  have a: "WaitSetMaster env0 server0 node_B ''T'' 0 =
       (OK, server0\<lparr>calls :=
          [Ev_PendingUpdate (UpdateTask kOpSetStuck [] ''T'' 0),
           Ev_AddCronTask (OffsetCondition ''T'' 0 node_A node_B)
             (UpdateTask kOpSetMaster ''10.0.0.6:8001'' ''T'' 0)]\<rparr>)"
    using WaitSetMaster_gated [OF found, of server0 node_B] ports
    by (simp add: env0_def server0_def OK_def ok_def node_B_def)
  have b: "WaitSetMaster env0 server0 node_B ''T'' 5
       = (Status kNotFound ''partition not exist'', server0)"
    using WaitSetMaster_gated [OF absent, of server0 node_B]
    by (simp add: ok_def)
  from found absent a b show ?thesis by simp
qed

section \<open>The leader joint\<close>

subsection \<open>RedirectToLeader without a connection\<close>

text \<open>
  C5. A call to \<open>RedirectToLeader(request, response)\<close> made while the redirect client
  handle is null returns Corruption("no leader connection"); nothing is sent, and the
  response and the server object are untouched.
\<close>

theorem RedirectToLeader_no_connection:
  assumes "cli (leader_joint st) = None"
  shows "RedirectToLeader env st request response =
           (Corruption ''no leader connection'', response, st)"
  using assms by (simp add: RedirectToLeader_def)

theorem RedirectToLeader_no_connection_witness:
  "cli (leader_joint server0) = None
   \<and> RedirectToLeader env0 server0 \<lparr>cmd_type = ADDSLAVE, cmd_body = ''T 0 10.0.0.7:8001''\<rparr>
        \<lparr>rsp_type = ADDSLAVE, rsp_body = []\<rparr>
      = (Corruption ''no leader connection'', \<lparr>rsp_type = ADDSLAVE, rsp_body = []\<rparr>, server0)
   \<and> calls server0 = []"
proof -
  have null: "cli (leader_joint server0) = None"
    by (simp add: server0_def)
  from RedirectToLeader_no_connection [OF null] null show ?thesis
    by (simp add: server0_def)
qed

subsection \<open>RefreshLeader when the log has no leader\<close>

text \<open>
  C6, amended. A call to RefreshLeader in which the replicated log reports no leader
  returns Incomplete("No leader yet") and leaves the server object as it was: the leader
  address of the joint and any redirect connection to a previous leader are kept.
\<close>

theorem RefreshLeader_no_leader:
  assumes "floyd_GetLeader env = None"
  shows "RefreshLeader env st = (Incomplete ''No leader yet'', st)"
  using assms by (simp add: RefreshLeader_def GetLeader_def)

theorem RefreshLeader_no_leader_witness:
  "floyd_GetLeader env_no_leader = None
   \<and> RefreshLeader env_no_leader server_follower = (Incomplete ''No leader yet'', server_follower)"
proof -
  have none: "floyd_GetLeader env_no_leader = None"
    by (simp add: env_no_leader_def)
  from RefreshLeader_no_leader [OF none] none show ?thesis by simp
qed

text \<open>
  C6 as stated fails: a follower connected to \<open>10.0.0.2\<close> still holds that connection,
  and still names \<open>10.0.0.2\<close> as leader, after a RefreshLeader that found no leader.
\<close>

theorem RefreshLeader_no_leader_counterexample:
  "floyd_GetLeader env_no_leader = None
   \<and> cli (leader_joint (snd (RefreshLeader env_no_leader server_follower)))
       = Some \<lparr>peer_ip = ''10.0.0.2'', peer_port = 9221,
                send_timeout = 1000, recv_timeout = 1000\<rparr>
   \<and> lj_ip (leader_joint (snd (RefreshLeader env_no_leader server_follower))) = ''10.0.0.2''"
  by (simp add: RefreshLeader_def GetLeader_def env_no_leader_def server_follower_def)

subsection \<open>RefreshLeader when this node is the leader\<close>

text \<open>
  C7, what the code does. When the log reports this node as leader and the joint does not
  hold this node's address, RefreshLeader cleans the joint (the redirect connection is
  dropped) and calls \<open>RestoreNodeAlive\<close>. It does not store its own address in the joint,
  so \<open>IsLeader\<close> is still false afterwards, the next tick sees a leader change again and
  calls \<open>RestoreNodeAlive\<close> once more: the restore is not confined to the entry into
  leadership.
\<close>

theorem RefreshLeader_self_leader_every_tick:
  assumes "floyd_GetLeader env = Some (local_ip env, local_port env + kMetaPortShiftFY env)"
      and "local_ip env \<noteq> []"
      and "\<not> IsLeader env st"
      and "ok (RestoreNodeAlive env (calls st))"
  shows "RefreshLeader env st =
           (OK, st\<lparr>leader_joint := \<lparr>cli = None, lj_ip = [], lj_port = 0\<rparr>,
                   calls := calls st @ [Ev_RestoreNodeAlive]\<rparr>)
       \<and> \<not> IsLeader env (snd (RefreshLeader env st))
       \<and> calls (snd (RefreshLeader env (snd (RefreshLeader env st))))
           = calls st @ [Ev_RestoreNodeAlive, Ev_RestoreNodeAlive]"
proof -
  have leader: "GetLeader env = Some (local_ip env, local_port env)"
    using assms(1) by (simp add: GetLeader_def)
  have tick: "\<And>s. \<not> IsLeader env s \<Longrightarrow>
      leader_joint (snd (RefreshLeader env s)) = \<lparr>cli = None, lj_ip = [], lj_port = 0\<rparr>
      \<and> calls (snd (RefreshLeader env s)) = calls s @ [Ev_RestoreNodeAlive]
      \<and> info_epoch (snd (RefreshLeader env s)) = info_epoch s
      \<and> node_offsets (snd (RefreshLeader env s)) = node_offsets s"
    by (auto simp add: RefreshLeader_def leader IsLeader_def CleanLeader_def Let_def)
  have first: "RefreshLeader env st =
           (OK, st\<lparr>leader_joint := \<lparr>cli = None, lj_ip = [], lj_port = 0\<rparr>,
                   calls := calls st @ [Ev_RestoreNodeAlive]\<rparr>)"
    using assms(3,4)
    by (auto simp add: RefreshLeader_def leader IsLeader_def CleanLeader_def Let_def)
  have still: "\<not> IsLeader env (snd (RefreshLeader env st))"
    using assms(2) by (simp add: first IsLeader_def)
  from tick [OF still] first still show ?thesis
    by simp
qed

text \<open>A fresh server on \<open>10.0.0.1\<close> whose log reports \<open>10.0.0.1\<close> as leader, two ticks.\<close>

theorem RefreshLeader_self_leader_every_tick_witness:
  "floyd_GetLeader env_self_leader
     = Some (local_ip env_self_leader, local_port env_self_leader + kMetaPortShiftFY env_self_leader)
   \<and> local_ip env_self_leader \<noteq> []
   \<and> \<not> IsLeader env_self_leader server0
   \<and> ok (RestoreNodeAlive env_self_leader (calls server0))
   \<and> RefreshLeader env_self_leader server0 = (OK, server0\<lparr>calls := [Ev_RestoreNodeAlive]\<rparr>)
   \<and> \<not> IsLeader env_self_leader (snd (RefreshLeader env_self_leader server0))
   \<and> calls (snd (RefreshLeader env_self_leader (snd (RefreshLeader env_self_leader server0))))
       = [Ev_RestoreNodeAlive, Ev_RestoreNodeAlive]"
proof -
  have self: "floyd_GetLeader env_self_leader
     = Some (local_ip env_self_leader, local_port env_self_leader + kMetaPortShiftFY env_self_leader)"
    by (simp add: env_self_leader_def env0_def)
  have named: "local_ip env_self_leader \<noteq> []"
    by (simp add: env_self_leader_def env0_def)
  have entering: "\<not> IsLeader env_self_leader server0"
    by (simp add: IsLeader_def env_self_leader_def env0_def server0_def)
  have restore: "ok (RestoreNodeAlive env_self_leader (calls server0))"
    by (simp add: env_self_leader_def env0_def ok_def OK_def)
  have fresh: "server0\<lparr>leader_joint := \<lparr>cli = None, lj_ip = [], lj_port = 0\<rparr>,
                       calls := calls server0 @ [Ev_RestoreNodeAlive]\<rparr>
               = server0\<lparr>calls := [Ev_RestoreNodeAlive]\<rparr>"
    by (simp add: server0_def)
  have start: "calls server0 = []"
    by (simp add: server0_def)
  note ticks = RefreshLeader_self_leader_every_tick [OF self named entering restore]
  have one: "RefreshLeader env_self_leader server0
               = (OK, server0\<lparr>calls := [Ev_RestoreNodeAlive]\<rparr>)"
    using ticks [THEN conjunct1] by (simp only: fresh)
  have not_leader: "\<not> IsLeader env_self_leader (snd (RefreshLeader env_self_leader server0))"
    by (rule ticks [THEN conjunct2, THEN conjunct1])
  have two: "calls (snd (RefreshLeader env_self_leader
                           (snd (RefreshLeader env_self_leader server0))))
               = [Ev_RestoreNodeAlive, Ev_RestoreNodeAlive]"
    using ticks [THEN conjunct2, THEN conjunct2] by (simp only: start append_Nil)
  from self named entering restore one not_leader two show ?thesis
    by (intro conjI)
qed

section \<open>Pull by node\<close>

text \<open>
  C9. For a node that is in no table's replica set, so that GetTablesForNode answers
  NotFound (or OK) with an empty set, GetMetaInfoByNode returns OK, sets the version of
  the response to the current epoch and adds no table to it: the NotFound is absorbed.
\<close>

theorem GetMetaInfoByNode_absent_node:
  assumes "GetTablesForNode env ip_port = (s, [])"
      and "IsNotFound s \<or> ok s"
  shows "GetMetaInfoByNode env st ip_port ms_info = (OK, ms_info\<lparr>version := info_epoch st\<rparr>)"
  using assms by (auto simp add: GetMetaInfoByNode_def)

text \<open>Node C serves no table.\<close>

theorem GetMetaInfoByNode_absent_node_witness:
  "GetTablesForNode env0 ''10.0.0.7:8001'' = (Status kNotFound ''node not exist'', [])
   \<and> IsNotFound (Status kNotFound ''node not exist'')
   \<and> GetMetaInfoByNode env0 server0 ''10.0.0.7:8001'' \<lparr>version = 0, info = []\<rparr>
       = (OK, \<lparr>version = 7, info = []\<rparr>)"
proof -
  have absent: "GetTablesForNode env0 ''10.0.0.7:8001''
                  = (Status kNotFound ''node not exist'', [])"
    by (simp add: env0_def)
  have nf: "IsNotFound (Status kNotFound ''node not exist'') \<or> ok (Status kNotFound ''node not exist'')"
    by (simp add: IsNotFound_def)
  from GetMetaInfoByNode_absent_node [OF absent nf, of server0 "\<lparr>version = 0, info = []\<rparr>"] absent
  show ?thesis
    by (simp add: server0_def IsNotFound_def)
qed

section \<open>ListMeta\<close>

text \<open>What the loop over the peer addresses returns: it stops at the first address that
  does not parse; every peer before that one, the leader apart, is appended with its port
  shifted down.\<close>

lemma GetAllMetaNodes_loop_eq:
  "GetAllMetaNodes_loop env ret meta_nodes p =
     (if list_all (\<lambda>a. ParseIpPortString env a \<noteq> None) meta_nodes
      then OK else Corruption ''parse ip port error'',
      p\<lparr>followers := followers p @
          map (\<lambda>(p_ip, p_port). \<lparr>ip = p_ip, port = p_port - kMetaPortShiftFY env\<rparr>)
            (filter (\<lambda>(p_ip, p_port). ret \<noteq> Some (p_ip, p_port - kMetaPortShiftFY env))
               (List.map_filter (ParseIpPortString env)
                  (takeWhile (\<lambda>a. ParseIpPortString env a \<noteq> None) meta_nodes)))\<rparr>)"
proof (induction meta_nodes arbitrary: p)
  case Nil
  show ?case by simp
next
  case (Cons iter rest)
  show ?case
  proof (cases "ParseIpPortString env iter")
    case None
    then show ?thesis by simp
  next
    case (Some peer)
    obtain p_ip p_port where peer: "peer = (p_ip, p_port)"
      by (cases peer)
    show ?thesis
    proof (cases "ret = Some (p_ip, p_port - kMetaPortShiftFY env)")
      case True
      with Some peer
      have step: "GetAllMetaNodes_loop env ret (iter # rest) p
                    = GetAllMetaNodes_loop env ret rest p"
        by simp
      from Some peer True show ?thesis
        unfolding step Cons.IH
        by simp
    next
      case False
      with Some peer
      have step: "GetAllMetaNodes_loop env ret (iter # rest) p
                    = GetAllMetaNodes_loop env ret rest
                        (p\<lparr>followers := followers p
                              @ [\<lparr>ip = p_ip, port = p_port - kMetaPortShiftFY env\<rparr>]\<rparr>)"
        by (cases ret) auto
      from Some peer False show ?thesis
        unfolding step Cons.IH
        by simp
    qed
  qed
qed

text \<open>
  C8. GetAllMetaNodes reports the leader with the port of the log minus
  \<open>kMetaPortShiftFY\<close> (a subtraction of 32-bit values, here and below), and appends to the followers every peer address of the log, its
  port minus \<open>kMetaPortShiftFY\<close>, except the peer whose address is the leader's; the node
  reported as leader is not among the followers added. The status is OK when every
  address parses; at the first one that does not, the call stops with Corruption and the
  peers before it stay reported.
\<close>

theorem GetAllMetaNodes_base_ports:
  "(let added =
          map (\<lambda>(p_ip, p_port). \<lparr>ip = p_ip, port = p_port - kMetaPortShiftFY env\<rparr>)
            (filter (\<lambda>peer. floyd_GetLeader env \<noteq> Some peer)
               (List.map_filter (ParseIpPortString env)
                  (takeWhile (\<lambda>a. ParseIpPortString env a \<noteq> None)
                     (floyd_GetAllNodes env))))
    in GetAllMetaNodes env nodes =
         (if list_all (\<lambda>a. ParseIpPortString env a \<noteq> None) (floyd_GetAllNodes env)
          then OK else Corruption ''parse ip port error'',
          nodes\<lparr>leader :=
                   (case floyd_GetLeader env of
                      None \<Rightarrow> leader nodes
                    | Some (l_ip, fy_port) \<Rightarrow>
                        Some \<lparr>ip = l_ip, port = fy_port - kMetaPortShiftFY env\<rparr>),
                followers := followers nodes @ added\<rparr>)
       \<and> (case floyd_GetLeader env of
             None \<Rightarrow> True
           | Some (l_ip, fy_port) \<Rightarrow>
               \<lparr>ip = l_ip, port = fy_port - kMetaPortShiftFY env\<rparr> \<notin> set added))"
proof -
  have same: "(\<lambda>(p_ip, p_port). GetLeader env \<noteq> Some (p_ip, p_port - kMetaPortShiftFY env))
              = (\<lambda>peer. floyd_GetLeader env \<noteq> Some peer)"
    by (auto simp add: GetLeader_def fun_eq_iff split: option.splits)
  have run: "GetAllMetaNodes env nodes =
         (if list_all (\<lambda>a. ParseIpPortString env a \<noteq> None) (floyd_GetAllNodes env)
          then OK else Corruption ''parse ip port error'',
          nodes\<lparr>leader :=
                   (case floyd_GetLeader env of
                      None \<Rightarrow> leader nodes
                    | Some (l_ip, fy_port) \<Rightarrow>
                        Some \<lparr>ip = l_ip, port = fy_port - kMetaPortShiftFY env\<rparr>),
                followers := followers nodes @
                   map (\<lambda>(p_ip, p_port). \<lparr>ip = p_ip, port = p_port - kMetaPortShiftFY env\<rparr>)
                     (filter (\<lambda>peer. floyd_GetLeader env \<noteq> Some peer)
                        (List.map_filter (ParseIpPortString env)
                           (takeWhile (\<lambda>a. ParseIpPortString env a \<noteq> None)
                              (floyd_GetAllNodes env))))\<rparr>)"
    unfolding GetAllMetaNodes_def Let_def GetAllMetaNodes_loop_eq same
    by (auto simp add: GetLeader_def split: option.splits)
  have excluded: "\<And>l_ip fy_port peers. floyd_GetLeader env = Some (l_ip, fy_port) \<Longrightarrow>
      \<lparr>ip = l_ip, port = fy_port - kMetaPortShiftFY env\<rparr>
        \<notin> set (map (\<lambda>(p_ip, p_port). \<lparr>ip = p_ip, port = p_port - kMetaPortShiftFY env\<rparr>)
                  (filter (\<lambda>peer. floyd_GetLeader env \<noteq> Some peer) peers))"
    by auto
  from run excluded show ?thesis
    by (simp add: Let_def split: option.splits prod.splits)
qed

text \<open>Three peers, \<open>10.0.0.2\<close> the leader.\<close>

theorem GetAllMetaNodes_base_ports_witness:
  "GetAllMetaNodes env0 \<lparr>leader = None, followers = []\<rparr> =
     (OK, \<lparr>leader = Some \<lparr>ip = ''10.0.0.2'', port = 9221\<rparr>,
           followers = [\<lparr>ip = ''10.0.0.1'', port = 9221\<rparr>, \<lparr>ip = ''10.0.0.3'', port = 9221\<rparr>]\<rparr>)"
  using GetAllMetaNodes_base_ports [of env0 "\<lparr>leader = None, followers = []\<rparr>"]
  by (simp add: env0_def)

section \<open>Node offsets\<close>

subsection \<open>The key of a tuple that fits\<close>















subsection \<open>UpdateNodeOffset\<close>




end
